theory Spec2Isabelle
  imports Main
begin

section \<open>Error values\<close>

text \<open>
  \<^verbatim>\<open>type HipchatError struct { Code int; Type string; Message string }\<close>
  (part_001, lines 72-76).  The field \<open>Message\<close> carries the suffix \<open>_err\<close> because
  \<open>MessageRequest\<close> has a field of the same name.
\<close>

record HipchatError =
  Code :: int
  Type :: string
  Message_err :: string

text \<open>
  A Go \<open>error\<close> value.  The program produces these: \<open>errors.New(s)\<close>, a
  \<open>HipchatError\<close>, the two errors of \<open>json.Unmarshal\<close> (a syntax error, and a type
  error with its \<open>Value\<close> and \<open>Type\<close> fields), and whatever \<open>net/http\<close> or
  \<open>ioutil.ReadAll\<close> reports, kept by its message.  A nil error is \<open>None\<close> of
  \<open>error option\<close>.
\<close>

datatype error =
    ErrorString string
  | HipchatErr HipchatError
  | SyntaxError string
  | UnmarshalTypeError string string
  | TransportError string

text \<open>\<^verbatim>\<open>func (e HipchatError) Error() string { return e.Message }\<close> (part_001, lines 78-80).\<close>

definition HipchatError_Error :: "HipchatError \<Rightarrow> string" where
  "HipchatError_Error e = Message_err e"

text \<open>
  The \<open>Error()\<close> method of the interface, by dynamic type.  The texts of the library's
  own errors follow the library's wording (\<open>json: cannot unmarshal V into Go value of
  type T\<close>) without its offsets and field paths.
\<close>

fun error_Error :: "error \<Rightarrow> string" where
  "error_Error (ErrorString s) = s"
| "error_Error (HipchatErr e) = HipchatError_Error e"
| "error_Error (SyntaxError m) = m"
| "error_Error (UnmarshalTypeError v t) =
     ''json: cannot unmarshal '' @ v @ '' into Go value of type '' @ t"
| "error_Error (TransportError m) = m"

definition zero_HipchatError :: HipchatError where
  "zero_HipchatError = \<lparr>Code = 0, Type = [], Message_err = []\<rparr>"

section \<open>JSON text (the syntax layer of encoding/json)\<close>

text \<open>
  \<open>json.Unmarshal\<close> first checks that the bytes are one JSON value (RFC 8259) and then
  stores the value into the target.  The first phase is modelled as a parser from bytes
  to a document tree.  Numbers keep their literal text, object members keep their order
  and their duplicates: the second phase depends on both.  A syntax error carries a
  message that names the kind of failure; the library's own text also quotes the
  offending character.
\<close>

datatype json =
    JNull
  | JBool bool
  | JNumber string
  | JString string
  | JArray "json list"
  | JObject "(string \<times> json) list"

datatype token =
    LBrace | RBrace | LBracket | RBracket | Colon | Comma
  | TString string | TNumber string | TTrue | TFalse | TNull

subsection \<open>Characters\<close>

text \<open>A byte as a number, \<open>0\<close> to \<open>255\<close>.\<close>

definition byte :: "char \<Rightarrow> int" where
  "byte c = of_char c"

definition isSpace :: "char \<Rightarrow> bool" where
  "isSpace c = (c = CHR '' '' \<or> c = CHR 0x09 \<or> c = CHR 0x0A \<or> c = CHR 0x0D)"

definition isDigit :: "char \<Rightarrow> bool" where
  "isDigit c = (0x30 \<le> byte c \<and> byte c \<le> 0x39)"

definition isLower :: "char \<Rightarrow> bool" where
  "isLower c = (0x61 \<le> byte c \<and> byte c \<le> 0x7A)"

definition isUpper :: "char \<Rightarrow> bool" where
  "isUpper c = (0x41 \<le> byte c \<and> byte c \<le> 0x5A)"

definition isHex :: "char \<Rightarrow> bool" where
  "isHex c =
     (isDigit c \<or> (0x61 \<le> byte c \<and> byte c \<le> 0x66) \<or> (0x41 \<le> byte c \<and> byte c \<le> 0x46))"

definition hexDigit :: "char \<Rightarrow> int" where
  "hexDigit c =
     (if isDigit c then byte c - 0x30
      else if isLower c then byte c - 0x61 + 10
      else byte c - 0x41 + 10)"

definition hexValue :: "string \<Rightarrow> int" where
  "hexValue cs = foldl (\<lambda>n c. 16 * n + hexDigit c) 0 cs"

subsection \<open>Numbers\<close>

text \<open>
  The number grammar: \<open>-? (0 | [1-9][0-9]*) (. [0-9]+)? ([eE] [+-]? [0-9]+)?\<close>.
\<close>

fun digits1 :: "string \<Rightarrow> bool" where
  "digits1 cs = (cs \<noteq> [] \<and> list_all isDigit cs)"

definition validExp :: "string \<Rightarrow> bool" where
  "validExp cs =
     (case cs of
        [] \<Rightarrow> True
      | c # ds \<Rightarrow>
          (c = CHR ''e'' \<or> c = CHR ''E'') \<and>
          (case ds of
             [] \<Rightarrow> False
           | s # es \<Rightarrow> if s = CHR ''+'' \<or> s = CHR ''-'' then digits1 es else digits1 ds))"

definition validFrac :: "string \<Rightarrow> bool" where
  "validFrac cs =
     (case cs of
        [] \<Rightarrow> True
      | c # ds \<Rightarrow>
          if c = CHR ''.''
          then digits1 (takeWhile isDigit ds) \<and> validExp (dropWhile isDigit ds)
          else validExp cs)"

definition validInt :: "string \<Rightarrow> bool" where
  "validInt cs =
     (case cs of
        [] \<Rightarrow> False
      | c # ds \<Rightarrow>
          if c = CHR ''0'' then validFrac ds
          else isDigit c \<and> validFrac (dropWhile isDigit ds))"

definition validNumber :: "string \<Rightarrow> bool" where
  "validNumber cs =
     (case cs of
        [] \<Rightarrow> False
      | c # ds \<Rightarrow> if c = CHR ''-'' then validInt ds else validInt cs)"

definition isNumberChar :: "char \<Rightarrow> bool" where
  "isNumberChar c =
     (isDigit c \<or> c = CHR ''+'' \<or> c = CHR ''-'' \<or> c = CHR ''.'' \<or> c = CHR ''e'' \<or> c = CHR ''E'')"

subsection \<open>String contents\<close>

text \<open>
  Between its quotes a string is a sequence of units: a byte (written as itself or by a
  one-letter escape) or a \<open>\\uXXXX\<close> escape.  \<open>unquote\<close> turns the units into the bytes
  of the Go string, as the decoder does: a surrogate pair of escapes is one code point,
  a lone surrogate is U+FFFD, and raw bytes that are not well-formed UTF-8 are replaced
  byte by byte by U+FFFD (\<open>utf8.DecodeRune\<close>, \<open>utf8.EncodeRune\<close>).
\<close>

datatype sunit = Raw char | Esc16 int

definition replacementChar :: string where
  "replacementChar = [CHR 0xEF, CHR 0xBF, CHR 0xBD]"

definition isSurrogate :: "int \<Rightarrow> bool" where
  "isSurrogate r = (0xD800 \<le> r \<and> r < 0xE000)"

definition encodeRune :: "int \<Rightarrow> string" where
  "encodeRune r =
     (if r < 0x80 then [char_of r]
      else if r < 0x800 then [char_of (0xC0 + r div 64), char_of (0x80 + r mod 64)]
      else if isSurrogate r \<or> 0x10FFFF < r then replacementChar
      else if r < 0x10000 then
        [char_of (0xE0 + r div 4096), char_of (0x80 + (r div 64) mod 64),
         char_of (0x80 + r mod 64)]
      else
        [char_of (0xF0 + r div 262144), char_of (0x80 + (r div 4096) mod 64),
         char_of (0x80 + (r div 64) mod 64), char_of (0x80 + r mod 64)])"

text \<open>
  The table \<open>first\<close> of \<open>unicode/utf8\<close>: for a leading byte, the length of its sequence
  and the range its second byte must lie in; length 0 for a byte that cannot lead.
\<close>

definition first :: "int \<Rightarrow> nat \<times> int \<times> int" where
  "first b =
     (if 0xC2 \<le> b \<and> b \<le> 0xDF then (2, 0x80, 0xBF)
      else if b = 0xE0 then (3, 0xA0, 0xBF)
      else if b = 0xED then (3, 0x80, 0x9F)
      else if 0xE1 \<le> b \<and> b \<le> 0xEF then (3, 0x80, 0xBF)
      else if b = 0xF0 then (4, 0x90, 0xBF)
      else if 0xF1 \<le> b \<and> b \<le> 0xF3 then (4, 0x80, 0xBF)
      else if b = 0xF4 then (4, 0x80, 0x8F)
      else (0, 0, 0))"

fun rawIn :: "int \<Rightarrow> int \<Rightarrow> sunit \<Rightarrow> bool" where
  "rawIn lo hi (Raw c) = (lo \<le> byte c \<and> byte c \<le> hi)"
| "rawIn lo hi (Esc16 u) = False"

fun continues :: "nat \<Rightarrow> int \<Rightarrow> int \<Rightarrow> sunit list \<Rightarrow> bool" where
  "continues n lo hi [] = (n = 0)"
| "continues n lo hi (u # us) =
     (n = 0 \<or> (rawIn lo hi u \<and> continues (n - 1) 0x80 0xBF us))"

text \<open>
  The first argument of \<open>unquoteFrom\<close> counts the continuation bytes of a sequence
  already found well-formed, which are copied as they are.
\<close>

fun unquoteFrom :: "nat \<Rightarrow> sunit list \<Rightarrow> string" where
  "unquoteFrom k [] = []"
| "unquoteFrom (Suc k) (Raw c # us) = c # unquoteFrom k us"
| "unquoteFrom 0 (Raw c # us) =
     (if byte c < 0x80 then c # unquoteFrom 0 us
      else
        (case first (byte c) of
           (n, lo, hi) \<Rightarrow>
             if 0 < n \<and> continues (n - 1) lo hi us then c # unquoteFrom (n - 1) us
             else replacementChar @ unquoteFrom 0 us))"
| "unquoteFrom k (Esc16 hi # Esc16 lo # us) =
     (if 0xD800 \<le> hi \<and> hi < 0xDC00 \<and> 0xDC00 \<le> lo \<and> lo < 0xE000
      then encodeRune (0x10000 + (hi - 0xD800) * 1024 + (lo - 0xDC00)) @ unquoteFrom 0 us
      else encodeRune hi @ unquoteFrom 0 (Esc16 lo # us))"
| "unquoteFrom k (Esc16 u # us) = encodeRune u @ unquoteFrom 0 us"

definition unquote :: "sunit list \<Rightarrow> string" where
  "unquote us = unquoteFrom 0 us"

definition escapeChar :: "char \<Rightarrow> char option" where
  "escapeChar c =
     (if c = CHR 0x22 \<or> c = CHR 0x5C \<or> c = CHR ''/'' then Some c
      else if c = CHR ''b'' then Some (CHR 0x08)
      else if c = CHR ''f'' then Some (CHR 0x0C)
      else if c = CHR ''n'' then Some (CHR 0x0A)
      else if c = CHR ''r'' then Some (CHR 0x0D)
      else if c = CHR ''t'' then Some (CHR 0x09)
      else None)"

subsection \<open>The scanner\<close>

text \<open>
  One pass over the bytes, as the library's scanner makes it: a mode, and the tokens
  read so far (newest first).
\<close>

datatype lmode =
    Idle
  | InString "sunit list"
  | InEscape "sunit list"
  | InHex "sunit list" string
  | InNumber string
  | InLiteral string
  | Failed

definition literalToken :: "string \<Rightarrow> token option" where
  "literalToken cs =
     (if cs = ''true'' then Some TTrue
      else if cs = ''false'' then Some TFalse
      else if cs = ''null'' then Some TNull
      else None)"

definition lexIdle :: "token list \<Rightarrow> char \<Rightarrow> lmode \<times> token list" where
  "lexIdle ts c =
     (if isSpace c then (Idle, ts)
      else if c = CHR ''{'' then (Idle, LBrace # ts)
      else if c = CHR ''}'' then (Idle, RBrace # ts)
      else if c = CHR ''['' then (Idle, LBracket # ts)
      else if c = CHR '']'' then (Idle, RBracket # ts)
      else if c = CHR '':'' then (Idle, Colon # ts)
      else if c = CHR '','' then (Idle, Comma # ts)
      else if c = CHR 0x22 then (InString [], ts)
      else if c = CHR ''-'' \<or> isDigit c then (InNumber [c], ts)
      else if isLower c then (InLiteral [c], ts)
      else (Failed, ts))"

fun lexStep :: "lmode \<times> token list \<Rightarrow> char \<Rightarrow> lmode \<times> token list" where
  "lexStep (Idle, ts) c = lexIdle ts c"
| "lexStep (InString us, ts) c =
     (if c = CHR 0x22 then (Idle, TString (unquote (rev us)) # ts)
      else if c = CHR 0x5C then (InEscape us, ts)
      else if byte c < 0x20 then (Failed, ts)
      else (InString (Raw c # us), ts))"
| "lexStep (InEscape us, ts) c =
     (case escapeChar c of
        Some d \<Rightarrow> (InString (Raw d # us), ts)
      | None \<Rightarrow> if c = CHR ''u'' then (InHex us [], ts) else (Failed, ts))"
| "lexStep (InHex us hs, ts) c =
     (if \<not> isHex c then (Failed, ts)
      else if length hs = 3 then (InString (Esc16 (hexValue (rev (c # hs))) # us), ts)
      else (InHex us (c # hs), ts))"
| "lexStep (InNumber ds, ts) c =
     (if isNumberChar c then (InNumber (c # ds), ts)
      else if validNumber (rev ds) then lexIdle (TNumber (rev ds) # ts) c
      else (Failed, ts))"
| "lexStep (InLiteral ls, ts) c =
     (if isLower c then (InLiteral (c # ls), ts)
      else
        (case literalToken (rev ls) of
           Some t \<Rightarrow> lexIdle (t # ts) c
         | None \<Rightarrow> (Failed, ts)))"
| "lexStep (Failed, ts) c = (Failed, ts)"

fun lexFinish :: "lmode \<times> token list \<Rightarrow> token list option" where
  "lexFinish (Idle, ts) = Some (rev ts)"
| "lexFinish (InNumber ds, ts) =
     (if validNumber (rev ds) then Some (rev (TNumber (rev ds) # ts)) else None)"
| "lexFinish (InLiteral ls, ts) =
     (case literalToken (rev ls) of Some t \<Rightarrow> Some (rev (t # ts)) | None \<Rightarrow> None)"
| "lexFinish (m, ts) = None"

definition tokenize :: "string \<Rightarrow> token list option" where
  "tokenize s = lexFinish (foldl lexStep (Idle, []) s)"

subsection \<open>The parser\<close>

text \<open>
  The values under construction are kept on a stack, as the scanner keeps its
  \<open>parseState\<close>: an array with its elements so far, an object with its members so far,
  or an object whose next member has its key and waits for its value.  The library
  refuses a nesting deeper than 10000.
\<close>

datatype frame =
    FArray "json list"
  | FObject "(string \<times> json) list"
  | FMember "(string \<times> json) list" string

datatype phase =
    BeginValue
  | BeginValueOrEnd
  | BeginKeyOrEnd
  | BeginKey
  | ExpectColon
  | EndValue
  | EndTop json
  | Broken string

definition maxNestingDepth :: int where
  "maxNestingDepth = 10000"

fun finishValue :: "json \<Rightarrow> frame list \<Rightarrow> phase \<times> frame list" where
  "finishValue v [] = (EndTop v, [])"
| "finishValue v (FArray xs # st) = (EndValue, FArray (v # xs) # st)"
| "finishValue v (FMember kvs k # st) = (EndValue, FObject ((k, v) # kvs) # st)"
| "finishValue v (FObject kvs # st) = (Broken ''invalid parser state'', FObject kvs # st)"

definition pushFrame :: "frame \<Rightarrow> phase \<Rightarrow> frame list \<Rightarrow> phase \<times> frame list" where
  "pushFrame f p st =
     (if maxNestingDepth < int (length (f # st)) then (Broken ''exceeded max depth'', st)
      else (p, f # st))"

fun beginValue :: "token \<Rightarrow> frame list \<Rightarrow> phase \<times> frame list" where
  "beginValue (TString s) st = finishValue (JString s) st"
| "beginValue (TNumber n) st = finishValue (JNumber n) st"
| "beginValue TTrue st = finishValue (JBool True) st"
| "beginValue TFalse st = finishValue (JBool False) st"
| "beginValue TNull st = finishValue JNull st"
| "beginValue LBracket st = pushFrame (FArray []) BeginValueOrEnd st"
| "beginValue LBrace st = pushFrame (FObject []) BeginKeyOrEnd st"
| "beginValue t st = (Broken ''invalid character looking for beginning of value'', st)"

fun beginKey :: "token \<Rightarrow> frame list \<Rightarrow> phase \<times> frame list" where
  "beginKey (TString k) (FObject kvs # st) = (ExpectColon, FMember kvs k # st)"
| "beginKey t st = (Broken ''invalid character looking for beginning of object key string'', st)"

fun endValue :: "token \<Rightarrow> frame list \<Rightarrow> phase \<times> frame list" where
  "endValue Comma (FArray xs # st) = (BeginValue, FArray xs # st)"
| "endValue RBracket (FArray xs # st) = finishValue (JArray (rev xs)) st"
| "endValue Comma (FObject kvs # st) = (BeginKey, FObject kvs # st)"
| "endValue RBrace (FObject kvs # st) = finishValue (JObject (rev kvs)) st"
| "endValue t st = (Broken ''invalid character after value'', st)"

fun parseStep :: "phase \<times> frame list \<Rightarrow> token \<Rightarrow> phase \<times> frame list" where
  "parseStep (BeginValue, st) t = beginValue t st"
| "parseStep (BeginValueOrEnd, st) t =
     (if t = RBracket then endValue t st else beginValue t st)"
| "parseStep (BeginKeyOrEnd, st) t =
     (if t = RBrace then endValue t st else beginKey t st)"
| "parseStep (BeginKey, st) t = beginKey t st"
| "parseStep (ExpectColon, st) t =
     (if t = Colon then (BeginValue, st)
      else (Broken ''invalid character after object key'', st))"
| "parseStep (EndValue, st) t = endValue t st"
| "parseStep (EndTop v, st) t = (Broken ''invalid character after top-level value'', st)"
| "parseStep (Broken m, st) t = (Broken m, st)"

fun parseFinish :: "phase \<times> frame list \<Rightarrow> error + json" where
  "parseFinish (EndTop v, st) = Inr v"
| "parseFinish (Broken m, st) = Inl (SyntaxError m)"
| "parseFinish (p, st) = Inl (SyntaxError ''unexpected end of JSON input'')"

definition json_parse :: "string \<Rightarrow> error + json" where
  "json_parse s =
     (case tokenize s of
        None \<Rightarrow> Inl (SyntaxError ''invalid character in JSON input'')
      | Some ts \<Rightarrow> parseFinish (foldl parseStep (BeginValue, []) ts))"

section \<open>Storing a document into Go values (the reflection layer of encoding/json)\<close>

text \<open>
  Each decoder takes the document and the current value of the target and returns the
  new value with the first type error, if any: on a value that does not fit its target
  \<open>Unmarshal\<close> skips it, goes on, and reports the earliest such error at the end.
  \<open>null\<close> leaves a string, number, bool or struct as it is and sets a pointer or a
  slice to nil.
\<close>

fun jsonKind :: "json \<Rightarrow> string" where
  "jsonKind JNull = ''null''"
| "jsonKind (JBool b) = ''bool''"
| "jsonKind (JNumber n) = ''number''"
| "jsonKind (JString s) = ''string''"
| "jsonKind (JArray xs) = ''array''"
| "jsonKind (JObject kvs) = ''object''"

definition firstError :: "error option \<Rightarrow> error option \<Rightarrow> error option" where
  "firstError e e' = (case e of None \<Rightarrow> e' | Some x \<Rightarrow> Some x)"

definition decode_string :: "json \<Rightarrow> string \<Rightarrow> string \<times> error option" where
  "decode_string j cur =
     (case j of
        JNull \<Rightarrow> (cur, None)
      | JString s \<Rightarrow> (s, None)
      | _ \<Rightarrow> (cur, Some (UnmarshalTypeError (jsonKind j) ''string'')))"

definition decode_bool :: "json \<Rightarrow> bool \<Rightarrow> bool \<times> error option" where
  "decode_bool j cur =
     (case j of
        JNull \<Rightarrow> (cur, None)
      | JBool b \<Rightarrow> (b, None)
      | _ \<Rightarrow> (cur, Some (UnmarshalTypeError (jsonKind j) ''bool'')))"

text \<open>
  \<open>strconv.ParseInt(s, 10, 64)\<close> on the text of a JSON number: an optional sign and
  decimal digits, in the range of a 64-bit \<open>int\<close>.
\<close>

definition digitsValue :: "string \<Rightarrow> int" where
  "digitsValue cs = foldl (\<lambda>n c. 10 * n + (byte c - 0x30)) 0 cs"

definition ParseInt :: "string \<Rightarrow> int option" where
  "ParseInt s =
     (let neg = (take 1 s = ''-'');
          ds = (if neg then drop 1 s else s);
          n = (if neg then - digitsValue ds else digitsValue ds)
      in if digits1 ds \<and> - 9223372036854775808 \<le> n \<and> n \<le> 9223372036854775807
         then Some n else None)"

definition decode_int :: "json \<Rightarrow> int \<Rightarrow> int \<times> error option" where
  "decode_int j cur =
     (case j of
        JNull \<Rightarrow> (cur, None)
      | JNumber s \<Rightarrow>
          (case ParseInt s of
             Some n \<Rightarrow> (n, None)
           | None \<Rightarrow> (cur, Some (UnmarshalTypeError (''number '' @ s) ''int'')))
      | _ \<Rightarrow> (cur, Some (UnmarshalTypeError (jsonKind j) ''int'')))"

subsection \<open>Object keys and struct fields\<close>

text \<open>
  A key selects the field whose JSON name (its tag, or else its Go name) equals it,
  or else the first field whose name equals it under simple case folding.  For the
  ASCII names of this program folding maps a letter to its capital, and the two
  non-ASCII letters that fold into ASCII, U+017F (long s) and U+212A (Kelvin sign), to
  \<open>S\<close> and \<open>K\<close>.
\<close>

definition foldChar :: "char \<Rightarrow> char" where
  "foldChar c = (if isLower c then char_of (byte c - 0x20) else c)"

definition isLongS :: "char \<Rightarrow> char \<Rightarrow> bool" where
  "isLongS c d = (c = CHR 0xC5 \<and> d = CHR 0xBF)"

definition isKelvin :: "char \<Rightarrow> char \<Rightarrow> char \<Rightarrow> bool" where
  "isKelvin c d e = (c = CHR 0xE2 \<and> d = CHR 0x84 \<and> e = CHR 0xAA)"

fun foldName :: "string \<Rightarrow> string" where
  "foldName [] = []"
| "foldName [c] = [foldChar c]"
| "foldName [c, d] = (if isLongS c d then ''S'' else foldChar c # foldName [d])"
| "foldName (c # d # e # cs) =
     (if isKelvin c d e then CHR ''K'' # foldName cs
      else if isLongS c d then CHR ''S'' # foldName (e # cs)
      else foldChar c # foldName (d # e # cs))"

definition matchField :: "string list \<Rightarrow> string \<Rightarrow> string option" where
  "matchField names key =
     (if key \<in> set names then Some key
      else find (\<lambda>n. foldName n = foldName key) names)"

text \<open>
  A struct target: \<open>null\<close> is ignored, an object stores its members one after the other
  through \<open>store\<close>, anything else is a type error naming the struct's type.
\<close>

definition decode_struct ::
  "string \<Rightarrow> (string \<Rightarrow> json \<Rightarrow> 'a \<Rightarrow> 'a \<times> error option) \<Rightarrow> json \<Rightarrow> 'a \<Rightarrow> 'a \<times> error option" where
  "decode_struct tname store j cur =
     (case j of
        JNull \<Rightarrow> (cur, None)
      | JObject kvs \<Rightarrow>
          foldl (\<lambda>(v, e) (k, x). case store k x v of (v', e') \<Rightarrow> (v', firstError e e'))
            (cur, None) kvs
      | _ \<Rightarrow> (cur, Some (UnmarshalTypeError (jsonKind j) tname)))"

text \<open>
  A Go slice: its elements, and behind them the elements of its backing array that an
  earlier store wrote and a later, shorter one cut off (\<open>spare\<close>).  The slots of the
  backing array that were never written are zero and are not listed.  A nil slice and
  an empty slice with no backing array are both \<open>Slice [] []\<close>.
\<close>

datatype 'a slice = Slice (elems: "'a list") (spare: "'a list")

definition nil_slice :: "'a slice" where
  "nil_slice = Slice [] []"

text \<open>
  A slice target.  \<open>null\<close> sets it to nil.  An array stores its element \<open>i\<close> into slot
  \<open>i\<close> of the backing array as that slot is: into the element already there while
  \<open>i\<close> is below the length, into what an earlier store left there while \<open>i\<close> is below
  the capacity, and into a zero element once the array has to grow; the length becomes
  the number of elements of the array.  So a struct element keeps the fields that the
  new JSON object does not set.  An empty array gives a new empty slice.  Growing
  happens only when the length has reached the capacity, so it loses nothing.
\<close>

definition decode_slice ::
  "string \<Rightarrow> (json \<Rightarrow> 'a \<Rightarrow> 'a \<times> error option) \<Rightarrow> 'a \<Rightarrow> json \<Rightarrow> 'a slice \<Rightarrow> 'a slice \<times> error option" where
  "decode_slice tname elem zero j cur =
     (case j of
        JNull \<Rightarrow> (nil_slice, None)
      | JArray xs \<Rightarrow>
          (case xs of
             [] \<Rightarrow> (Slice [] [], None)
           | _ # _ \<Rightarrow>
               (let backing = elems cur @ spare cur;
                    stored = map (\<lambda>(x, slot). elem x slot)
                               (zip xs (backing @ replicate (length xs) zero))
                in (Slice (map fst stored) (drop (length xs) backing),
                    foldl firstError None (map snd stored))))
      | _ \<Rightarrow> (cur, Some (UnmarshalTypeError (jsonKind j) tname)))"

text \<open>A pointer target: \<open>null\<close> sets it to nil, anything else allocates it if needed.\<close>

definition decode_pointer ::
  "(json \<Rightarrow> 'a \<Rightarrow> 'a \<times> error option) \<Rightarrow> 'a \<Rightarrow> json \<Rightarrow> 'a option \<Rightarrow> 'a option \<times> error option" where
  "decode_pointer elem zero j cur =
     (case j of
        JNull \<Rightarrow> (None, None)
      | _ \<Rightarrow>
          (case elem j (case cur of None \<Rightarrow> zero | Some v \<Rightarrow> v) of
             (v, e) \<Rightarrow> (Some v, e)))"

text \<open>
  \<open>json.Unmarshal(body, &target)\<close>: a syntax error, or the earliest type error, or the
  target as stored.
\<close>

definition Unmarshal ::
  "(json \<Rightarrow> 'a \<Rightarrow> 'a \<times> error option) \<Rightarrow> 'a \<Rightarrow> string \<Rightarrow> error + 'a" where
  "Unmarshal dec target body =
     (case json_parse body of
        Inl err \<Rightarrow> Inl err
      | Inr j \<Rightarrow> (case dec j target of (v, None) \<Rightarrow> Inr v | (v, Some err) \<Rightarrow> Inl err))"

subsection \<open>The program's response types\<close>

definition store_HipchatError :: "string \<Rightarrow> json \<Rightarrow> HipchatError \<Rightarrow> HipchatError \<times> error option" where
  "store_HipchatError k x v =
     (case matchField [''Code'', ''Type'', ''Message''] k of
        None \<Rightarrow> (v, None)
      | Some f \<Rightarrow>
          if f = ''Code'' then (case decode_int x (Code v) of (n, e) \<Rightarrow> (v\<lparr>Code := n\<rparr>, e))
          else if f = ''Type'' then (case decode_string x (Type v) of (s, e) \<Rightarrow> (v\<lparr>Type := s\<rparr>, e))
          else (case decode_string x (Message_err v) of (s, e) \<Rightarrow> (v\<lparr>Message_err := s\<rparr>, e)))"

definition decode_HipchatError :: "json \<Rightarrow> HipchatError \<Rightarrow> HipchatError \<times> error option" where
  "decode_HipchatError = decode_struct ''hipchat.HipchatError'' store_HipchatError"

text \<open>\<^verbatim>\<open>type ErrorResponse struct { Error HipchatError }\<close> (part_001, lines 82-84).\<close>

record ErrorResponse =
  Error :: HipchatError

definition zero_ErrorResponse :: ErrorResponse where
  "zero_ErrorResponse = \<lparr>Error = zero_HipchatError\<rparr>"

definition store_ErrorResponse :: "string \<Rightarrow> json \<Rightarrow> ErrorResponse \<Rightarrow> ErrorResponse \<times> error option" where
  "store_ErrorResponse k x v =
     (case matchField [''Error''] k of
        None \<Rightarrow> (v, None)
      | Some f \<Rightarrow> (case decode_HipchatError x (Error v) of (h, e) \<Rightarrow> (v\<lparr>Error := h\<rparr>, e)))"

definition decode_ErrorResponse :: "json \<Rightarrow> ErrorResponse \<Rightarrow> ErrorResponse \<times> error option" where
  "decode_ErrorResponse = decode_struct ''hipchat.ErrorResponse'' store_ErrorResponse"

text \<open>
  \<^verbatim>\<open>type AuthResponse struct { Success, Error *HipchatError }\<close> (part_001, lines 68-70);
  a nil pointer is \<open>None\<close>.
\<close>

record AuthResponse =
  Success :: "HipchatError option"
  Error_auth :: "HipchatError option"

definition zero_AuthResponse :: AuthResponse where
  "zero_AuthResponse = \<lparr>Success = None, Error_auth = None\<rparr>"

definition store_AuthResponse :: "string \<Rightarrow> json \<Rightarrow> AuthResponse \<Rightarrow> AuthResponse \<times> error option" where
  "store_AuthResponse k x v =
     (case matchField [''Success'', ''Error''] k of
        None \<Rightarrow> (v, None)
      | Some f \<Rightarrow>
          if f = ''Success''
          then (case decode_pointer decode_HipchatError zero_HipchatError x (Success v) of
                  (p, e) \<Rightarrow> (v\<lparr>Success := p\<rparr>, e))
          else (case decode_pointer decode_HipchatError zero_HipchatError x (Error_auth v) of
                  (p, e) \<Rightarrow> (v\<lparr>Error_auth := p\<rparr>, e)))"

definition decode_AuthResponse :: "json \<Rightarrow> AuthResponse \<Rightarrow> AuthResponse \<times> error option" where
  "decode_AuthResponse = decode_struct ''hipchat.AuthResponse'' store_AuthResponse"

text \<open>
  \<^verbatim>\<open>struct{ Status string }\<close> (part_001, line 152) and
  \<^verbatim>\<open>type MessageResponse struct { Status string }\<close> (hipchat.go, lines 64-66): the same
  field under two type names.
\<close>

record MessageResponse =
  Status :: string

definition zero_MessageResponse :: MessageResponse where
  "zero_MessageResponse = \<lparr>Status = []\<rparr>"

definition store_MessageResponse :: "string \<Rightarrow> json \<Rightarrow> MessageResponse \<Rightarrow> MessageResponse \<times> error option" where
  "store_MessageResponse k x v =
     (case matchField [''Status''] k of
        None \<Rightarrow> (v, None)
      | Some f \<Rightarrow> (case decode_string x (Status v) of (s, e) \<Rightarrow> (v\<lparr>Status := s\<rparr>, e)))"

definition decode_MessageResponse :: "string \<Rightarrow> json \<Rightarrow> MessageResponse \<Rightarrow> MessageResponse \<times> error option" where
  "decode_MessageResponse tname = decode_struct tname store_MessageResponse"

text \<open>
  \<^verbatim>\<open>type Room struct\<close> (part_000, lines 12-40), with the JSON names of its tags.  The
  field \<open>RoomId\<close> carries the suffix \<open>_room\<close> because \<open>MessageRequest\<close> has a field of
  the same name.
\<close>

record Room =
  RoomId_room :: int
  Name :: string
  Topic :: string
  LastActive :: int
  Created :: int
  Archived :: bool
  Private :: bool
  OwnerUserId :: int
  XMPPJabberId :: string

definition zero_Room :: Room where
  "zero_Room =
     \<lparr>RoomId_room = 0, Name = [], Topic = [], LastActive = 0, Created = 0,
      Archived = False, Private = False, OwnerUserId = 0, XMPPJabberId = []\<rparr>"

definition Room_fields :: "string list" where
  "Room_fields =
     [''room_id'', ''Name'', ''Topic'', ''last_active'', ''Created'', ''is_archived'',
      ''is_private'', ''owner_user_id'', ''xmpp_jid'']"

definition store_Room :: "string \<Rightarrow> json \<Rightarrow> Room \<Rightarrow> Room \<times> error option" where
  "store_Room k x v =
     (case matchField Room_fields k of
        None \<Rightarrow> (v, None)
      | Some f \<Rightarrow>
          if f = ''room_id'' then
            (case decode_int x (RoomId_room v) of (n, e) \<Rightarrow> (v\<lparr>RoomId_room := n\<rparr>, e))
          else if f = ''Name'' then
            (case decode_string x (Name v) of (s, e) \<Rightarrow> (v\<lparr>Name := s\<rparr>, e))
          else if f = ''Topic'' then
            (case decode_string x (Topic v) of (s, e) \<Rightarrow> (v\<lparr>Topic := s\<rparr>, e))
          else if f = ''last_active'' then
            (case decode_int x (LastActive v) of (n, e) \<Rightarrow> (v\<lparr>LastActive := n\<rparr>, e))
          else if f = ''Created'' then
            (case decode_int x (Created v) of (n, e) \<Rightarrow> (v\<lparr>Created := n\<rparr>, e))
          else if f = ''is_archived'' then
            (case decode_bool x (Archived v) of (b, e) \<Rightarrow> (v\<lparr>Archived := b\<rparr>, e))
          else if f = ''is_private'' then
            (case decode_bool x (Private v) of (b, e) \<Rightarrow> (v\<lparr>Private := b\<rparr>, e))
          else if f = ''owner_user_id'' then
            (case decode_int x (OwnerUserId v) of (n, e) \<Rightarrow> (v\<lparr>OwnerUserId := n\<rparr>, e))
          else
            (case decode_string x (XMPPJabberId v) of (s, e) \<Rightarrow> (v\<lparr>XMPPJabberId := s\<rparr>, e)))"

definition decode_Room :: "json \<Rightarrow> Room \<Rightarrow> Room \<times> error option" where
  "decode_Room = decode_struct ''hipchat.Room'' store_Room"

text \<open>\<^verbatim>\<open>struct{ Rooms []Room }\<close> (part_000, line 62; part_001, line 211).\<close>

record RoomsResponse =
  Rooms :: "Room slice"

definition zero_RoomsResponse :: RoomsResponse where
  "zero_RoomsResponse = \<lparr>Rooms = nil_slice\<rparr>"

definition store_RoomsResponse :: "string \<Rightarrow> json \<Rightarrow> RoomsResponse \<Rightarrow> RoomsResponse \<times> error option" where
  "store_RoomsResponse k x v =
     (case matchField [''Rooms''] k of
        None \<Rightarrow> (v, None)
      | Some f \<Rightarrow>
          (case decode_slice ''[]hipchat.Room'' decode_Room zero_Room x (Rooms v) of
             (rs, e) \<Rightarrow> (v\<lparr>Rooms := rs\<rparr>, e)))"

definition decode_RoomsResponse :: "json \<Rightarrow> RoomsResponse \<Rightarrow> RoomsResponse \<times> error option" where
  "decode_RoomsResponse = decode_struct ''struct { Rooms []hipchat.Room }'' store_RoomsResponse"

text \<open>
  \<^verbatim>\<open>struct{ Messages []Message }\<close> (part_001, line 184).  The declaration of \<open>Message\<close>
  is not among the sources: its decoder and its zero value are parameters.
\<close>

definition store_MessagesResponse ::
  "(json \<Rightarrow> 'm \<Rightarrow> 'm \<times> error option) \<Rightarrow> 'm \<Rightarrow> string \<Rightarrow> json \<Rightarrow> 'm slice \<Rightarrow> 'm slice \<times> error option" where
  "store_MessagesResponse decode_Message zero_Message k x v =
     (case matchField [''Messages''] k of
        None \<Rightarrow> (v, None)
      | Some f \<Rightarrow> decode_slice ''[]hipchat.Message'' decode_Message zero_Message x v)"

definition decode_MessagesResponse ::
  "(json \<Rightarrow> 'm \<Rightarrow> 'm \<times> error option) \<Rightarrow> 'm \<Rightarrow> json \<Rightarrow> 'm slice \<Rightarrow> 'm slice \<times> error option" where
  "decode_MessagesResponse decode_Message zero_Message =
     decode_struct ''struct { Messages []hipchat.Message }''
       (store_MessagesResponse decode_Message zero_Message)"

section \<open>The client (part_001)\<close>

definition defaultBaseURL :: string where
  "defaultBaseURL = ''https://api.hipchat.com/v1''"

definition ResponseStatusSent :: string where
  "ResponseStatusSent = ''sent''"

record MessageRequest =
  RoomId :: string
  From :: string
  Message :: string
  MessageFormat :: string
  Notify :: bool
  Color :: string
  AuthTest :: bool

record Client =
  AuthToken :: string
  BaseURL :: string

text \<open>\<^verbatim>\<open>func NewClient(authToken string) Client\<close> (part_001, lines 94-96).\<close>

definition NewClient :: "string \<Rightarrow> Client" where
  "NewClient authToken = \<lparr>AuthToken = authToken, BaseURL = defaultBaseURL\<rparr>"

subsection \<open>net/url\<close>

text \<open>
  \<open>url.Values\<close> is \<open>map[string][]string\<close>; \<open>Add\<close> appends to the values of a key.
\<close>

type_synonym Values = "string \<rightharpoonup> string list"

definition Values_Add :: "Values \<Rightarrow> string \<Rightarrow> string \<Rightarrow> Values" where
  "Values_Add v k x = v(k \<mapsto> (case v k of None \<Rightarrow> [] | Some xs \<Rightarrow> xs) @ [x])"

text \<open>
  \<open>url.QueryEscape\<close>: letters, digits and \<open>- _ . ~\<close> stay, a space becomes \<open>+\<close>, every
  other byte becomes \<open>%XX\<close> in capital hexadecimal.
\<close>

definition shouldEscape :: "char \<Rightarrow> bool" where
  "shouldEscape c =
     (\<not> (isLower c \<or> isUpper c \<or> isDigit c \<or>
         c = CHR ''-'' \<or> c = CHR ''_'' \<or> c = CHR ''.'' \<or> c = CHR ''~''))"

definition upperhex :: string where
  "upperhex = ''0123456789ABCDEF''"

fun QueryEscape :: "string \<Rightarrow> string" where
  "QueryEscape [] = []"
| "QueryEscape (c # cs) =
     (if c = CHR '' '' then CHR ''+'' # QueryEscape cs
      else if shouldEscape c then
        CHR ''%'' # upperhex ! nat (byte c div 16) # upperhex ! nat (byte c mod 16)
          # QueryEscape cs
      else c # QueryEscape cs)"

subsection \<open>net/http\<close>

text \<open>
  The network is the environment: a function from the request the program issues to
  what \<open>http.Get\<close> or \<open>http.PostForm\<close> returns, an error or a response.  A response
  has its status code and what \<open>ioutil.ReadAll(resp.Body)\<close> returns, an error or the
  bytes.  Every operation returns the list of the requests it issued.
\<close>

datatype request = Get string | PostForm string Values

record Response =
  StatusCode :: int
  Body :: "error + string"

type_synonym transport = "request \<Rightarrow> error + Response"

definition StatusOK :: int where
  "StatusOK = 200"

text \<open>The transport that answers every request with the response \<open>r\<close>.\<close>

definition respond :: "Response \<Rightarrow> transport" where
  "respond r rq = Inr r"

subsection \<open>Building the form\<close>

text \<open>\<^verbatim>\<open>func urlValuesFromMessageRequest(req MessageRequest) (url.Values, error)\<close> (part_001, lines 98-117).\<close>

definition urlValuesFromMessageRequest :: "MessageRequest \<Rightarrow> error + Values" where
  "urlValuesFromMessageRequest req =
     (if length (RoomId req) = 0 \<or> length (From req) = 0 \<or> length (Message req) = 0
      then Inl (ErrorString ''The RoomId, From, and Message fields are all required.'')
      else
        (let payload = [''room_id'' \<mapsto> [RoomId req], ''from'' \<mapsto> [From req],
                        ''message'' \<mapsto> [Message req]];
             payload = (if Notify req = True then Values_Add payload ''notify'' ''1''
                        else payload);
             payload = (if length (Color req) > 0 then Values_Add payload ''color'' (Color req)
                        else payload);
             payload = (if length (MessageFormat req) > 0
                        then Values_Add payload ''message_format'' (MessageFormat req)
                        else payload)
         in Inr payload))"

subsection \<open>Decoding an error body\<close>

text \<open>\<^verbatim>\<open>func getError(body []byte) error\<close> (part_001, lines 221-227).\<close>

definition getError :: "string \<Rightarrow> error option" where
  "getError body =
     (case Unmarshal decode_ErrorResponse zero_ErrorResponse body of
        Inl err \<Rightarrow> Some err
      | Inr errResp \<Rightarrow> Some (HipchatErr (Error errResp)))"

subsection \<open>The operations\<close>

text \<open>
  The first statement of every operation:
  \<^verbatim>\<open>if len(c.BaseURL) == 0 { c.BaseURL = defaultBaseURL }\<close>.
\<close>

definition fillBaseURL :: "Client \<Rightarrow> Client" where
  "fillBaseURL c = (if length (BaseURL c) = 0 then c\<lparr>BaseURL := defaultBaseURL\<rparr> else c)"

text \<open>
  \<^verbatim>\<open>func (c *Client) PostMessage(req MessageRequest) error\<close> (part_001, lines 119-162).
  The result is the client as the call leaves it, the requests issued, and the error.
  \<open>RoomHistory\<close> and \<open>RoomList\<close> below also return the elements of the slice they
  return; a nil slice has none.
\<close>

definition PostMessage :: "transport \<Rightarrow> Client \<Rightarrow> MessageRequest \<Rightarrow> Client \<times> request list \<times> error option" where
  "PostMessage http c0 req =
     (let c = fillBaseURL c0;
          uri = BaseURL c @ ''/rooms/message?auth_token='' @ QueryEscape (AuthToken c);
          uri = (if AuthTest req then uri @ ''&auth_test=true'' else uri)
      in case urlValuesFromMessageRequest req of
           Inl err \<Rightarrow> (c, [], Some err)
         | Inr payload \<Rightarrow>
             (case http (PostForm uri payload) of
                Inl err \<Rightarrow> (c, [PostForm uri payload], Some err)
              | Inr resp \<Rightarrow>
                  (case Body resp of
                     Inl err \<Rightarrow> (c, [PostForm uri payload], Some err)
                   | Inr body \<Rightarrow>
                       (c, [PostForm uri payload],
                        if AuthTest req then
                          (case Unmarshal decode_AuthResponse zero_AuthResponse body of
                             Inl err \<Rightarrow> Some err
                           | Inr msgResp \<Rightarrow>
                               (case Error_auth msgResp of
                                  Some e \<Rightarrow> Some (HipchatErr e)
                                | None \<Rightarrow> None))
                        else
                          (case Unmarshal (decode_MessageResponse ''struct { Status string }'')
                                  zero_MessageResponse body of
                             Inl err \<Rightarrow> Some err
                           | Inr msgResp \<Rightarrow>
                               if Status msgResp \<noteq> ResponseStatusSent then getError body
                               else None)))))"

text \<open>
  \<^verbatim>\<open>func (c *Client) RoomHistory(id, date, tz string) ([]Message, error)\<close>
  (part_001, lines 164-190).
\<close>

definition RoomHistory ::
  "(json \<Rightarrow> 'm \<Rightarrow> 'm \<times> error option) \<Rightarrow> 'm \<Rightarrow> transport \<Rightarrow> Client \<Rightarrow> string \<Rightarrow> string \<Rightarrow> string
     \<Rightarrow> Client \<times> request list \<times> 'm list \<times> error option" where
  "RoomHistory decode_Message zero_Message http c0 id' date tz =
     (let c = fillBaseURL c0;
          uri = BaseURL c @ ''/rooms/history?auth_token='' @ QueryEscape (AuthToken c)
                @ ''&room_id='' @ QueryEscape id' @ ''&date='' @ QueryEscape date
                @ ''&timezone='' @ QueryEscape tz
      in case http (Get uri) of
           Inl err \<Rightarrow> (c, [Get uri], [], Some err)
         | Inr resp \<Rightarrow>
             (case Body resp of
                Inl err \<Rightarrow> (c, [Get uri], [], Some err)
              | Inr body \<Rightarrow>
                  if StatusCode resp \<noteq> StatusOK then (c, [Get uri], [], getError body)
                  else
                    (case Unmarshal (decode_MessagesResponse decode_Message zero_Message) nil_slice body of
                       Inl err \<Rightarrow> (c, [Get uri], [], Some err)
                     | Inr msgs \<Rightarrow> (c, [Get uri], elems msgs, None))))"

text \<open>\<^verbatim>\<open>func (c *Client) RoomList() ([]Room, error)\<close> (part_001, lines 192-217).\<close>

definition RoomList :: "transport \<Rightarrow> Client \<Rightarrow> Client \<times> request list \<times> Room list \<times> error option" where
  "RoomList http c0 =
     (let c = fillBaseURL c0;
          uri = BaseURL c @ ''/rooms/list?auth_token='' @ QueryEscape (AuthToken c)
      in case http (Get uri) of
           Inl err \<Rightarrow> (c, [Get uri], [], Some err)
         | Inr resp \<Rightarrow>
             (case Body resp of
                Inl err \<Rightarrow> (c, [Get uri], [], Some err)
              | Inr body \<Rightarrow>
                  if StatusCode resp \<noteq> StatusOK then (c, [Get uri], [], getError body)
                  else
                    (case Unmarshal decode_RoomsResponse zero_RoomsResponse body of
                       Inl err \<Rightarrow> (c, [Get uri], [], Some err)
                     | Inr roomsResp \<Rightarrow> (c, [Get uri], elems (Rooms roomsResp), None))))"

section \<open>The earlier revisions (hipchat.go, part_000)\<close>

text \<open>
  \<open>hipchat.go\<close> declares \<^verbatim>\<open>type Client struct { AuthToken string }\<close> and the constant
  \<open>baseURL\<close>; its \<open>MessageRequest\<close> has no \<open>AuthTest\<close> field, which the functions below
  do not read.  The names of this revision carry the suffix \<open>_old\<close> where they clash.
\<close>

definition baseURL :: string where
  "baseURL = ''https://api.hipchat.com/v1''"

record Client_old =
  AuthToken_old :: string

text \<open>\<^verbatim>\<open>func urlValuesFromRequest(req MessageRequest) (url.Values, error)\<close> (hipchat.go, lines 72-91).\<close>

definition urlValuesFromRequest :: "MessageRequest \<Rightarrow> error + Values" where
  "urlValuesFromRequest req =
     (if length (RoomId req) = 0 \<or> length (From req) = 0 \<or> length (Message req) = 0
      then Inl (ErrorString ''The RoomId, From, and Message fields are all required.'')
      else
        (let payload = [''room_id'' \<mapsto> [RoomId req], ''from'' \<mapsto> [From req],
                        ''message'' \<mapsto> [Message req]];
             payload = (if Notify req = True then Values_Add payload ''notify'' ''1''
                        else payload);
             payload = (if length (Color req) > 0 then Values_Add payload ''color'' (Color req)
                        else payload);
             payload = (if length (MessageFormat req) > 0
                        then Values_Add payload ''message_format'' (MessageFormat req)
                        else payload)
         in Inr payload))"

text \<open>
  \<^verbatim>\<open>func (c *Client) PostMessage(req MessageRequest) error\<close> (hipchat.go, lines 93-120).
  The token goes into the URL as it is.
\<close>

definition PostMessage_old :: "transport \<Rightarrow> Client_old \<Rightarrow> MessageRequest \<Rightarrow> request list \<times> error option" where
  "PostMessage_old http c req =
     (let uri = baseURL @ ''/rooms/message?auth_token='' @ AuthToken_old c
      in case urlValuesFromRequest req of
           Inl err \<Rightarrow> ([], Some err)
         | Inr payload \<Rightarrow>
             (case http (PostForm uri payload) of
                Inl err \<Rightarrow> ([PostForm uri payload], Some err)
              | Inr resp \<Rightarrow>
                  (case Body resp of
                     Inl err \<Rightarrow> ([PostForm uri payload], Some err)
                   | Inr body \<Rightarrow>
                       ([PostForm uri payload],
                        case Unmarshal (decode_MessageResponse ''hipchat.MessageResponse'')
                               zero_MessageResponse body of
                          Inl err \<Rightarrow> Some err
                        | Inr response \<Rightarrow>
                            if Status response \<noteq> ResponseStatusSent
                            then Some (ErrorString
                              (''PostMessage: response '' @ [CHR 0x27] @ ''status'' @ [CHR 0x27]
                               @ '' field was not '' @ [CHR 0x27] @ ''sent'' @ [CHR 0x27] @ ''.''))
                            else None))))"

text \<open>
  \<^verbatim>\<open>func (c *Client) RoomList() ([]Room, error)\<close> (part_000, lines 42-68), of a revision
  between the two: the client and \<open>baseURL\<close> of \<open>hipchat.go\<close>, and \<open>ErrorResponse\<close> as
  part_001 has it.
\<close>

definition RoomList_old :: "transport \<Rightarrow> Client_old \<Rightarrow> request list \<times> Room list \<times> error option" where
  "RoomList_old http c =
     (let uri = baseURL @ ''/rooms/list?auth_token='' @ QueryEscape (AuthToken_old c)
      in case http (Get uri) of
           Inl err \<Rightarrow> ([Get uri], [], Some err)
         | Inr resp \<Rightarrow>
             (case Body resp of
                Inl err \<Rightarrow> ([Get uri], [], Some err)
              | Inr body \<Rightarrow>
                  if StatusCode resp \<noteq> 200 then
                    (case Unmarshal decode_ErrorResponse zero_ErrorResponse body of
                       Inl err \<Rightarrow> ([Get uri], [], Some err)
                     | Inr errResp \<Rightarrow>
                         ([Get uri], [], Some (ErrorString (Message_err (Error errResp)))))
                  else
                    (case Unmarshal decode_RoomsResponse zero_RoomsResponse body of
                       Inl err \<Rightarrow> ([Get uri], [], Some err)
                     | Inr roomsResp \<Rightarrow> ([Get uri], elems (Rooms roomsResp), None))))"

section \<open>Documents and fields\<close>

text \<open>
  \<open>hasField name j\<close>: the document is an object, and one of its keys selects the field
  \<open>name\<close> under the decoder's own matching (exactly, or under case folding).
\<close>

definition hasField :: "string \<Rightarrow> json \<Rightarrow> bool" where
  "hasField name j =
     (case j of
        JObject kvs \<Rightarrow> list_ex (\<lambda>kv. matchField [name] (fst kv) \<noteq> None) kvs
      | _ \<Rightarrow> False)"

section \<open>Properties of the client\<close>

subsection \<open>Validation and the form\<close>

lemma urlValues_required:
  "RoomId req = [] \<or> From req = [] \<or> Message req = [] \<Longrightarrow>
   urlValuesFromMessageRequest req =
     Inl (ErrorString ''The RoomId, From, and Message fields are all required.'')"
  by (auto simp: urlValuesFromMessageRequest_def)

lemma urlValues_ok:
  assumes "RoomId req \<noteq> []" and "From req \<noteq> []" and "Message req \<noteq> []"
  shows "\<exists>payload. urlValuesFromMessageRequest req = Inr payload"
  using assms by (simp add: urlValuesFromMessageRequest_def Let_def)

text \<open>
  Claim C1.  For every request in which \<open>RoomId\<close>, \<open>From\<close> or \<open>Message\<close> is the empty
  string, \<open>PostMessage\<close> returns the validation error and issues no HTTP request: the
  list of requests is empty, whatever the transport and the client.
\<close>

theorem C1_validation_before_network:
  assumes "RoomId req = [] \<or> From req = [] \<or> Message req = []"
  shows "snd (PostMessage http c req) =
           ([], Some (ErrorString ''The RoomId, From, and Message fields are all required.''))"
  using urlValues_required [OF assms] by (simp add: PostMessage_def Let_def)

theorem C1_validation_before_network_witness:
  "From \<lparr>RoomId = ''r'', From = [], Message = ''m'', MessageFormat = [], Notify = False,
          Color = [], AuthTest = False\<rparr> = [] \<and>
   snd (PostMessage (respond \<lparr>StatusCode = 200, Body = Inr ''{}''\<rparr>) (NewClient ''t'')
          \<lparr>RoomId = ''r'', From = [], Message = ''m'', MessageFormat = [], Notify = False,
            Color = [], AuthTest = False\<rparr>) =
     ([], Some (ErrorString ''The RoomId, From, and Message fields are all required.''))"
  using C1_validation_before_network
    [of "\<lparr>RoomId = ''r'', From = [], Message = ''m'', MessageFormat = [], Notify = False,
          Color = [], AuthTest = False\<rparr>"
        "respond \<lparr>StatusCode = 200, Body = Inr ''{}''\<rparr>" "NewClient ''t''"]
  by simp

text \<open>
  Claim C3.  For every request with \<open>RoomId\<close>, \<open>From\<close> and \<open>Message\<close> non-empty the form
  is built, it binds \<open>room_id\<close>, \<open>from\<close> and \<open>message\<close> to those fields, it binds
  \<open>notify\<close> (to \<open>1\<close>) exactly when \<open>Notify\<close> is true, \<open>color\<close> exactly when \<open>Color\<close> is
  non-empty and \<open>message_format\<close> exactly when \<open>MessageFormat\<close> is non-empty, and it has
  no other key.
\<close>

theorem C3_form_parameters:
  assumes "RoomId req \<noteq> []" and "From req \<noteq> []" and "Message req \<noteq> []"
  shows "\<exists>payload. urlValuesFromMessageRequest req = Inr payload \<and>
           payload ''room_id'' = Some [RoomId req] \<and>
           payload ''from'' = Some [From req] \<and>
           payload ''message'' = Some [Message req] \<and>
           payload ''notify'' = (if Notify req then Some [''1''] else None) \<and>
           payload ''color'' = (if Color req \<noteq> [] then Some [Color req] else None) \<and>
           payload ''message_format'' =
             (if MessageFormat req \<noteq> [] then Some [MessageFormat req] else None) \<and>
           dom payload \<subseteq> {''room_id'', ''from'', ''message'', ''notify'', ''color'', ''message_format''}"
  using assms
  by (simp add: urlValuesFromMessageRequest_def Let_def Values_Add_def)

theorem C3_form_parameters_witness:
  "\<exists>payload.
     urlValuesFromMessageRequest
       \<lparr>RoomId = ''Den'', From = ''GLaDOS'', Message = ''Bad news'', MessageFormat = [],
        Notify = True, Color = ''purple'', AuthTest = False\<rparr> = Inr payload \<and>
     payload ''room_id'' = Some [''Den''] \<and>
     payload ''from'' = Some [''GLaDOS''] \<and>
     payload ''message'' = Some [''Bad news''] \<and>
     payload ''notify'' = Some [''1''] \<and>
     payload ''color'' = Some [''purple''] \<and>
     payload ''message_format'' = None \<and>
     dom payload \<subseteq> {''room_id'', ''from'', ''message'', ''notify'', ''color'', ''message_format''}"
  using C3_form_parameters
    [of "\<lparr>RoomId = ''Den'', From = ''GLaDOS'', Message = ''Bad news'', MessageFormat = [],
          Notify = True, Color = ''purple'', AuthTest = False\<rparr>"]
  by simp

subsection \<open>The client's fields\<close>

lemma PostMessage_client: "fst (PostMessage http c req) = fillBaseURL c"
  by (simp add: PostMessage_def Let_def split: sum.splits)

lemma RoomList_client: "fst (RoomList http c) = fillBaseURL c"
  by (simp add: RoomList_def Let_def split: sum.splits)

lemma RoomHistory_client:
  "fst (RoomHistory decode_Message zero_Message http c id' date tz) = fillBaseURL c"
  by (simp add: RoomHistory_def Let_def split: sum.splits)

lemma fillBaseURL_frame:
  "AuthToken (fillBaseURL c) = AuthToken c \<and>
   (BaseURL (fillBaseURL c) \<noteq> BaseURL c \<longleftrightarrow> BaseURL c = []) \<and>
   (BaseURL c = [] \<longrightarrow> BaseURL (fillBaseURL c) = ''https://api.hipchat.com/v1'') \<and>
   fillBaseURL c = (if BaseURL c = [] then c\<lparr>BaseURL := ''https://api.hipchat.com/v1''\<rparr> else c)"
  by (simp add: fillBaseURL_def defaultBaseURL_def)

text \<open>
  Claim C9.  Whatever the transport answers and whatever the arguments are, the client
  that \<open>PostMessage\<close>, \<open>RoomList\<close> or \<open>RoomHistory\<close> leaves has the \<open>AuthToken\<close> it had;
  its \<open>BaseURL\<close> differs from the one at entry exactly when that one was empty, and is
  then the default endpoint.  The client has no other field, so it is the client at
  entry with at most that one update, on every path.
\<close>

theorem C9_client_frame:
  assumes "c' = fst (PostMessage http c req) \<or> c' = fst (RoomList http c) \<or>
           c' = fst (RoomHistory decode_Message zero_Message http c id' date tz)"
  shows "AuthToken c' = AuthToken c \<and>
         (BaseURL c' \<noteq> BaseURL c \<longleftrightarrow> BaseURL c = []) \<and>
         (BaseURL c = [] \<longrightarrow> BaseURL c' = ''https://api.hipchat.com/v1'') \<and>
         c' = (if BaseURL c = [] then c\<lparr>BaseURL := ''https://api.hipchat.com/v1''\<rparr> else c)"
proof -
  from assms have "c' = fillBaseURL c"
    by (auto simp: PostMessage_client RoomList_client RoomHistory_client)
  then show ?thesis
    using fillBaseURL_frame [of c] by simp
qed

theorem C9_client_frame_witness:
  "fst (PostMessage (respond \<lparr>StatusCode = 500, Body = Inr ''oops''\<rparr>)
         \<lparr>AuthToken = ''t'', BaseURL = []\<rparr>
         \<lparr>RoomId = [], From = ''f'', Message = ''m'', MessageFormat = [], Notify = False,
           Color = [], AuthTest = False\<rparr>) =
     \<lparr>AuthToken = ''t'', BaseURL = ''https://api.hipchat.com/v1''\<rparr> \<and>
   fst (RoomList (respond \<lparr>StatusCode = 500, Body = Inr ''oops''\<rparr>)
         \<lparr>AuthToken = ''t'', BaseURL = ''http://localhost''\<rparr>) =
     \<lparr>AuthToken = ''t'', BaseURL = ''http://localhost''\<rparr>"
proof -
  let ?http = "respond \<lparr>StatusCode = 500, Body = Inr ''oops''\<rparr>"
  let ?req = "\<lparr>RoomId = [], From = ''f'', Message = ''m'', MessageFormat = [], Notify = False,
           Color = [], AuthTest = False\<rparr>"
  let ?c1 = "\<lparr>AuthToken = ''t'', BaseURL = []\<rparr>"
  let ?c2 = "\<lparr>AuthToken = ''t'', BaseURL = ''http://localhost''\<rparr>"
  have a: "fst (PostMessage ?http ?c1 ?req) = fst (PostMessage ?http ?c1 ?req) \<or>
        fst (PostMessage ?http ?c1 ?req) = fst (RoomList ?http ?c1) \<or>
        fst (PostMessage ?http ?c1 ?req) = fst (RoomHistory decode_Room zero_Room ?http ?c1 [] [] [])"
    by simp
  have b: "fst (RoomList ?http ?c2) = fst (PostMessage ?http ?c2 ?req) \<or>
        fst (RoomList ?http ?c2) = fst (RoomList ?http ?c2) \<or>
        fst (RoomList ?http ?c2) = fst (RoomHistory decode_Room zero_Room ?http ?c2 [] [] [])"
    by simp
  show ?thesis
    using C9_client_frame [OF a] C9_client_frame [OF b] by simp
qed

subsection \<open>The request URLs\<close>

text \<open>
  The three operations of part_001 put the escaped token into the URL, after the base
  URL as the call leaves it.
\<close>

lemma PostMessage_request:
  assumes "urlValuesFromMessageRequest req = Inr payload"
  shows "fst (snd (PostMessage http c req)) =
           [PostForm (BaseURL (fillBaseURL c) @ ''/rooms/message?auth_token='' @
                      QueryEscape (AuthToken (fillBaseURL c)) @
                      (if AuthTest req then ''&auth_test=true'' else [])) payload]"
  unfolding PostMessage_def Let_def assms sum.case
  by (simp split: sum.split)

lemma RoomList_request:
  "fst (snd (RoomList http c)) =
     [Get (BaseURL (fillBaseURL c) @ ''/rooms/list?auth_token='' @
           QueryEscape (AuthToken (fillBaseURL c)))]"
  unfolding RoomList_def Let_def by (simp split: sum.split)

lemma RoomHistory_request:
  "fst (snd (RoomHistory decode_Message zero_Message http c id' date tz)) =
     [Get (BaseURL (fillBaseURL c) @ ''/rooms/history?auth_token='' @
           QueryEscape (AuthToken (fillBaseURL c))
           @ ''&room_id='' @ QueryEscape id' @ ''&date='' @ QueryEscape date
           @ ''&timezone='' @ QueryEscape tz)]"
  unfolding RoomHistory_def Let_def by (simp split: sum.split)

text \<open>
  Claim C8.  \<open>PostMessage\<close> of \<open>hipchat.go\<close> does not escape the token: for the token
  \<open>a&b=c\<close> the URL it posts to ends in \<open>auth_token=a&b=c\<close>, where the escaped token is
  \<open>a%26b%3Dc\<close>.
\<close>

theorem C8_old_PostMessage_token_not_escaped:
  "fst (PostMessage_old (respond \<lparr>StatusCode = 200, Body = Inr ''{}''\<rparr>)
         \<lparr>AuthToken_old = ''a&b=c''\<rparr>
         \<lparr>RoomId = ''r'', From = ''f'', Message = ''m'', MessageFormat = [], Notify = False,
           Color = [], AuthTest = False\<rparr>) =
     [PostForm ''https://api.hipchat.com/v1/rooms/message?auth_token=a&b=c''
        [''room_id'' \<mapsto> [''r''], ''from'' \<mapsto> [''f''], ''message'' \<mapsto> [''m'']]] \<and>
   QueryEscape ''a&b=c'' = ''a%26b%3Dc''"
  by (simp add: PostMessage_old_def urlValuesFromRequest_def baseURL_def respond_def Let_def
      shouldEscape_def isLower_def isUpper_def isDigit_def upperhex_def byte_def)

subsection \<open>Decoding an error body\<close>

lemma getError_not_nil: "getError body \<noteq> None"
  by (simp add: getError_def split: sum.split)

lemma match_error: "matchField [''Error''] ''error'' = Some ''Error''"
  by code_simp

lemma match_code: "matchField [''Code'', ''Type'', ''Message''] ''code'' = Some ''Code''"
  by code_simp

lemma match_type: "matchField [''Code'', ''Type'', ''Message''] ''type'' = Some ''Type''"
  by code_simp

lemma match_message: "matchField [''Code'', ''Type'', ''Message''] ''message'' = Some ''Message''"
  by code_simp

lemma decode_error_shape:
  assumes "ParseInt code = Some n"
  shows "decode_ErrorResponse
           (JObject [(''error'', JObject [(''code'', JNumber code), (''type'', JString ty),
                                          (''message'', JString msg)])])
           zero_ErrorResponse =
         (\<lparr>Error = \<lparr>Code = n, Type = ty, Message_err = msg\<rparr>\<rparr>, None)"
  by (simp add: decode_ErrorResponse_def decode_HipchatError_def decode_struct_def
      store_ErrorResponse_def store_HipchatError_def match_error match_code match_type
      match_message decode_int_def decode_string_def assms firstError_def
      zero_ErrorResponse_def zero_HipchatError_def)

text \<open>
  Claim C5.  For every body: when the body decodes as \<open>ErrorResponse\<close>, \<open>getError\<close>
  returns the \<open>HipchatError\<close> of its \<open>Error\<close> field; for a body that is an object with
  the one member \<open>error\<close> holding \<open>code\<close> (an integer), \<open>type\<close> and \<open>message\<close> (strings)
  that is the error with those three values; when the body is not JSON text it returns
  the parser's error itself; and it never returns nil.
\<close>

theorem C5_getError:
  "(\<forall>errResp. Unmarshal decode_ErrorResponse zero_ErrorResponse body = Inr errResp \<longrightarrow>
      getError body = Some (HipchatErr (Error errResp))) \<and>
   (\<forall>code ty msg n.
      json_parse body =
        Inr (JObject [(''error'', JObject [(''code'', JNumber code), (''type'', JString ty),
                                           (''message'', JString msg)])]) \<and>
      ParseInt code = Some n \<longrightarrow>
      getError body = Some (HipchatErr \<lparr>Code = n, Type = ty, Message_err = msg\<rparr>)) \<and>
   (\<forall>err. json_parse body = Inl err \<longrightarrow> getError body = Some err) \<and>
   getError body \<noteq> None"
proof -
  have shape: "getError body = Some (HipchatErr \<lparr>Code = n, Type = ty, Message_err = msg\<rparr>)"
    if "json_parse body =
          Inr (JObject [(''error'', JObject [(''code'', JNumber code), (''type'', JString ty),
                                             (''message'', JString msg)])])"
      and "ParseInt code = Some n" for code ty msg n
    using that(1) decode_error_shape [OF that(2), of ty msg]
    by (simp add: getError_def Unmarshal_def)
  have rest: "(\<forall>errResp. Unmarshal decode_ErrorResponse zero_ErrorResponse body = Inr errResp \<longrightarrow>
      getError body = Some (HipchatErr (Error errResp))) \<and>
     (\<forall>err. json_parse body = Inl err \<longrightarrow> getError body = Some err) \<and>
     getError body \<noteq> None"
    by (simp add: getError_def Unmarshal_def split: sum.split)
  from shape rest show ?thesis by blast
qed

lemma bad_token_parse:
  \<open>json_parse ''{"error":{"code":401,"type":"Unauthorized","message":"bad token"}}'' =
     Inr (JObject [(''error'', JObject [(''code'', JNumber ''401''),
                                        (''type'', JString ''Unauthorized''),
                                        (''message'', JString ''bad token'')])])\<close>
  by code_simp

lemma parse_401: "ParseInt ''401'' = Some 401"
  by code_simp

lemma truncated_parse:
  \<open>json_parse ''{"error":'' = Inl (SyntaxError ''unexpected end of JSON input'')\<close>
  by code_simp

theorem C5_getError_witness:
  \<open>getError ''{"error":{"code":401,"type":"Unauthorized","message":"bad token"}}'' =
     Some (HipchatErr \<lparr>Code = 401, Type = ''Unauthorized'', Message_err = ''bad token''\<rparr>) \<and>
    getError ''{"error":'' = Some (SyntaxError ''unexpected end of JSON input'')\<close>
proof -
  have a: \<open>getError ''{"error":{"code":401,"type":"Unauthorized","message":"bad token"}}'' =
     Some (HipchatErr \<lparr>Code = 401, Type = ''Unauthorized'', Message_err = ''bad token''\<rparr>)\<close>
    using C5_getError
      [of \<open>''{"error":{"code":401,"type":"Unauthorized","message":"bad token"}}''\<close>]
      bad_token_parse parse_401 by blast
  have b: \<open>getError ''{"error":'' = Some (SyntaxError ''unexpected end of JSON input'')\<close>
    using C5_getError [of \<open>''{"error":''\<close>] truncated_parse by blast
  from a b show ?thesis by blast
qed

subsection \<open>Responses with a status other than 200\<close>

lemma getError_bad_token:
  \<open>getError ''{"error":{"code":401,"type":"Unauthorized","message":"bad token"}}'' =
     Some (HipchatErr \<lparr>Code = 401, Type = ''Unauthorized'', Message_err = ''bad token''\<rparr>)\<close>
  by code_simp

lemma RoomList_not_ok:
  assumes "StatusCode r \<noteq> 200" and "Body r = Inr body"
  shows "snd (snd (RoomList (respond r) c)) = ([], getError body)"
  using assms by (simp add: RoomList_def respond_def StatusOK_def Let_def)

lemma RoomHistory_not_ok:
  assumes "StatusCode r \<noteq> 200" and "Body r = Inr body"
  shows "snd (snd (RoomHistory decode_Message zero_Message (respond r) c id' date tz)) =
           ([], getError body)"
  using assms by (simp add: RoomHistory_def respond_def StatusOK_def Let_def)

text \<open>
  Claim C4.  For every response with a status code other than 200 (and a body that
  could be read), \<open>RoomList\<close> and \<open>RoomHistory\<close> return no elements together with the
  error \<open>getError\<close> decodes from the body, which is never nil; for the body
  \<open>{"error":{"code":401,"type":"Unauthorized","message":"bad token"}}\<close> the message of
  that error is \<open>bad token\<close>.
\<close>

theorem C4_error_status:
  assumes "StatusCode r \<noteq> 200" and "Body r = Inr body"
  shows \<open>snd (snd (RoomList (respond r) c)) = ([], getError body) \<and>
         snd (snd (RoomHistory decode_Message zero_Message (respond r) c id' date tz)) =
           ([], getError body) \<and>
         getError body \<noteq> None \<and>
         (body = ''{"error":{"code":401,"type":"Unauthorized","message":"bad token"}}'' \<longrightarrow>
            map_option error_Error (getError body) = Some ''bad token'')\<close>
  using RoomList_not_ok [OF assms] RoomHistory_not_ok [OF assms] getError_not_nil [of body]
    getError_bad_token
  by (simp add: HipchatError_Error_def)

theorem C4_error_status_witness:
  \<open>map_option error_Error (snd (snd (snd (RoomList
      (respond \<lparr>StatusCode = 401,
         Body = Inr ''{"error":{"code":401,"type":"Unauthorized","message":"bad token"}}''\<rparr>)
      (NewClient ''t''))))) = Some ''bad token'' \<and>
    fst (snd (snd (RoomList
      (respond \<lparr>StatusCode = 401,
         Body = Inr ''{"error":{"code":401,"type":"Unauthorized","message":"bad token"}}''\<rparr>)
      (NewClient ''t'')))) = [] \<and>
    map_option error_Error (snd (snd (snd (RoomHistory decode_Room zero_Room
      (respond \<lparr>StatusCode = 401,
         Body = Inr ''{"error":{"code":401,"type":"Unauthorized","message":"bad token"}}''\<rparr>)
      (NewClient ''t'') ''1'' ''2013-01-01'' ''UTC'')))) = Some ''bad token''\<close>
proof -
  let ?body = \<open>''{"error":{"code":401,"type":"Unauthorized","message":"bad token"}}''\<close>
  let ?r = "\<lparr>StatusCode = 401, Body = Inr ?body\<rparr>"
  have a: "StatusCode ?r \<noteq> 200" by simp
  have b: "Body ?r = Inr ?body" by simp
  show ?thesis
    using C4_error_status [OF a b, of "NewClient ''t''" decode_Room zero_Room "''1''"
        "''2013-01-01''" "''UTC''"]
    by simp
qed

subsection \<open>The status of a posted message\<close>

lemma PostMessage_body:
  assumes "\<not> AuthTest req" and "urlValuesFromMessageRequest req = Inr payload"
    and "Body r = Inr body"
  shows "snd (snd (PostMessage (respond r) c req)) =
           (case Unmarshal (decode_MessageResponse ''struct { Status string }'')
                   zero_MessageResponse body of
              Inl err \<Rightarrow> Some err
            | Inr msgResp \<Rightarrow>
                if Status msgResp \<noteq> ResponseStatusSent then getError body else None)"
  unfolding PostMessage_def Let_def
  by (simp add: assms respond_def)

lemma queued_status:
  \<open>Unmarshal (decode_MessageResponse ''struct { Status string }'') zero_MessageResponse
     ''{"status":"queued","error":{"code":1,"message":"x"}}'' = Inr \<lparr>Status = ''queued''\<rparr>\<close>
  by code_simp

lemma queued_error:
  \<open>getError ''{"status":"queued","error":{"code":1,"message":"x"}}'' =
     Some (HipchatErr \<lparr>Code = 1, Type = [], Message_err = ''x''\<rparr>)\<close>
  by code_simp

lemma sent_status:
  \<open>Unmarshal (decode_MessageResponse ''struct { Status string }'') zero_MessageResponse
     ''{"status":"sent"}'' = Inr \<lparr>Status = ''sent''\<rparr>\<close>
  by code_simp

text \<open>
  Claim C2.  For every request without \<open>AuthTest\<close> whose required fields are
  non-empty, when the round trip yields a body that decodes into the status struct:
  \<open>PostMessage\<close> returns nil exactly when the decoded \<open>Status\<close> is \<open>sent\<close>, and for any
  other status it returns what \<open>getError\<close> decodes from the same body.  For the body
  \<open>{"status":"queued","error":{"code":1,"message":"x"}}\<close> the message of the returned
  error is \<open>x\<close>; for the body \<open>{"status":"sent"}\<close> the call succeeds.
\<close>

theorem C2_status_sent:
  assumes "\<not> AuthTest req"
    and "RoomId req \<noteq> []" and "From req \<noteq> []" and "Message req \<noteq> []"
    and "Body r = Inr body"
    and "Unmarshal (decode_MessageResponse ''struct { Status string }'')
           zero_MessageResponse body = Inr msgResp"
  shows \<open>(snd (snd (PostMessage (respond r) c req)) = None \<longleftrightarrow> Status msgResp = ''sent'') \<and>
         (Status msgResp \<noteq> ''sent'' \<longrightarrow>
            snd (snd (PostMessage (respond r) c req)) = getError body) \<and>
         (body = ''{"status":"queued","error":{"code":1,"message":"x"}}'' \<longrightarrow>
            map_option error_Error (snd (snd (PostMessage (respond r) c req))) = Some ''x'') \<and>
         (body = ''{"status":"sent"}'' \<longrightarrow> snd (snd (PostMessage (respond r) c req)) = None)\<close>
proof -
  from urlValues_ok [OF assms(2-4)] obtain payload
    where p: "urlValuesFromMessageRequest req = Inr payload" by blast
  have res: "snd (snd (PostMessage (respond r) c req)) =
               (if Status msgResp \<noteq> ''sent'' then getError body else None)"
    using PostMessage_body [OF assms(1) p assms(5), of c] assms(6)
    by (simp add: ResponseStatusSent_def)
  have ex: "map_option error_Error (snd (snd (PostMessage (respond r) c req))) = Some ''x''"
    if b: \<open>body = ''{"status":"queued","error":{"code":1,"message":"x"}}''\<close>
  proof -
    from assms(6) queued_status have "msgResp = \<lparr>Status = ''queued''\<rparr>"
      unfolding b by simp
    then have "snd (snd (PostMessage (respond r) c req)) = getError body"
      using res by simp
    then show ?thesis
      unfolding b using queued_error by (simp add: HipchatError_Error_def)
  qed
  have sent: "snd (snd (PostMessage (respond r) c req)) = None"
    if b: \<open>body = ''{"status":"sent"}''\<close>
  proof -
    from assms(6) sent_status have "msgResp = \<lparr>Status = ''sent''\<rparr>"
      unfolding b by simp
    then show ?thesis using res by simp
  qed
  show ?thesis
    using res ex sent getError_not_nil [of body] by auto
qed

theorem C2_status_sent_witness:
  \<open>map_option error_Error (snd (snd (PostMessage
      (respond \<lparr>StatusCode = 200,
         Body = Inr ''{"status":"queued","error":{"code":1,"message":"x"}}''\<rparr>)
      (NewClient ''t'')
      \<lparr>RoomId = ''r'', From = ''f'', Message = ''m'', MessageFormat = [], Notify = False,
        Color = [], AuthTest = False\<rparr>))) = Some ''x''\<close>
proof -
  let ?body = \<open>''{"status":"queued","error":{"code":1,"message":"x"}}''\<close>
  let ?r = "\<lparr>StatusCode = 200, Body = Inr ?body\<rparr>"
  let ?req = "\<lparr>RoomId = ''r'', From = ''f'', Message = ''m'', MessageFormat = [],
               Notify = False, Color = [], AuthTest = False\<rparr>"
  have a: "\<not> AuthTest ?req" "RoomId ?req \<noteq> []" "From ?req \<noteq> []" "Message ?req \<noteq> []"
    by simp_all
  have b: "Body ?r = Inr ?body" by simp
  have "?body = ?body \<longrightarrow>
          map_option error_Error (snd (snd (PostMessage (respond ?r) (NewClient ''t'') ?req))) =
            Some ''x''"
    using C2_status_sent [OF a b queued_status, of "NewClient ''t''"]
    by (rule conjunct1 [OF conjunct2 [OF conjunct2]])
  then show ?thesis by blast
qed

subsection \<open>The room list of a 200 response\<close>

lemma lobby_rooms:
  \<open>Unmarshal decode_RoomsResponse zero_RoomsResponse
     ''{"rooms":[{"room_id":1,"name":"Lobby","is_archived":false}]}'' =
   Inr \<lparr>Rooms = Slice [\<lparr>RoomId_room = 1, Name = ''Lobby'', Topic = [], LastActive = 0,
                          Created = 0, Archived = False, Private = False, OwnerUserId = 0,
                          XMPPJabberId = []\<rparr>] []\<rparr>\<close>
  by code_simp

lemma repeated_rooms:
  \<open>Unmarshal decode_RoomsResponse zero_RoomsResponse
     ''{"rooms":[{"room_id":1}],"rooms":[{"name":"b"}]}'' =
   Inr \<lparr>Rooms = Slice [\<lparr>RoomId_room = 1, Name = ''b'', Topic = [], LastActive = 0,
                          Created = 0, Archived = False, Private = False, OwnerUserId = 0,
                          XMPPJabberId = []\<rparr>] []\<rparr>\<close>
  by code_simp

lemma shorter_rooms:
  \<open>Unmarshal decode_RoomsResponse zero_RoomsResponse
     ''{"rooms":[{"room_id":1},{"room_id":2}],"rooms":[{"name":"b"}],"rooms":[{},{},{}]}'' =
   Inr \<lparr>Rooms = Slice [zero_Room\<lparr>RoomId_room := 1, Name := ''b''\<rparr>,
                          zero_Room\<lparr>RoomId_room := 2\<rparr>, zero_Room] []\<rparr>\<close>
  by code_simp

lemma RoomList_ok:
  assumes "StatusCode r = 200" and "Body r = Inr body"
  shows "snd (snd (RoomList (respond r) c)) =
           (case Unmarshal decode_RoomsResponse zero_RoomsResponse body of
              Inl err \<Rightarrow> ([], Some err)
            | Inr roomsResp \<Rightarrow> (elems (Rooms roomsResp), None))"
  unfolding RoomList_def Let_def
  by (simp add: assms respond_def StatusOK_def split: sum.split)

lemma store_skip:
  assumes "\<not> list_ex (\<lambda>kv. matchField names (fst kv) \<noteq> None) kvs"
    and "\<And>k x v. matchField names k = None \<Longrightarrow> store k x v = (v, None)"
  shows "foldl (\<lambda>(v, e) (k, x). case store k x v of (v', e') \<Rightarrow> (v', firstError e e'))
           (cur, None) kvs = (cur, None)"
  using assms(1)
proof (induction kvs)
  case Nil
  then show ?case by simp
next
  case (Cons kv kvs)
  obtain k x where kv: "kv = (k, x)" by (cases kv)
  from Cons.prems have "matchField names k = None" by (simp add: kv)
  then have "store k x cur = (cur, None)" by (rule assms(2))
  moreover from Cons.prems have "\<not> list_ex (\<lambda>kv. matchField names (fst kv) \<noteq> None) kvs"
    by simp
  ultimately show ?case
    using Cons.IH by (simp add: kv firstError_def)
qed

lemma decode_RoomsResponse_absent:
  assumes "\<not> hasField ''Rooms'' (JObject kvs)"
  shows "decode_RoomsResponse (JObject kvs) cur = (cur, None)"
proof -
  have "\<And>k x v. matchField [''Rooms''] k = None \<Longrightarrow> store_RoomsResponse k x v = (v, None)"
    by (simp add: store_RoomsResponse_def)
  with assms show ?thesis
    unfolding decode_RoomsResponse_def decode_struct_def hasField_def json.case
    by (rule store_skip [rotated -1, rotated -1])
qed

text \<open>
  Claim C6, amended.  For every response with status 200 whose body decodes into
  \<open>struct{ Rooms []Room }\<close> without error, \<open>RoomList\<close> returns the decoded \<open>Rooms\<close> and no
  error; when the decoding fails it returns that error and no rooms.  The body
  \<open>{"rooms":[{"room_id":1,"name":"Lobby","is_archived":false}]}\<close> gives exactly one room,
  with \<open>RoomId\<close> 1, \<open>Name\<close> \<open>Lobby\<close> and \<open>Archived\<close> false, and a body that is an object
  with no member for \<open>Rooms\<close> gives the empty list and no error.  A body that repeats
  the member stores the later array into the elements of the earlier one:
  \<open>{"rooms":[{"room_id":1}],"rooms":[{"name":"b"}]}\<close> gives one room with \<open>RoomId\<close> 1 and
  \<open>Name\<close> \<open>b\<close>.
\<close>

theorem C6_RoomList_success:
  assumes "StatusCode r = 200" and "Body r = Inr body"
  shows \<open>(\<forall>roomsResp. Unmarshal decode_RoomsResponse zero_RoomsResponse body = Inr roomsResp \<longrightarrow>
            snd (snd (RoomList (respond r) c)) = (elems (Rooms roomsResp), None)) \<and>
         (\<forall>err. Unmarshal decode_RoomsResponse zero_RoomsResponse body = Inl err \<longrightarrow>
            snd (snd (RoomList (respond r) c)) = ([], Some err)) \<and>
         (body = ''{"rooms":[{"room_id":1,"name":"Lobby","is_archived":false}]}'' \<longrightarrow>
            snd (snd (RoomList (respond r) c)) =
              ([\<lparr>RoomId_room = 1, Name = ''Lobby'', Topic = [], LastActive = 0, Created = 0,
                 Archived = False, Private = False, OwnerUserId = 0, XMPPJabberId = []\<rparr>],
               None)) \<and>
         (\<forall>kvs. json_parse body = Inr (JObject kvs) \<and> \<not> hasField ''Rooms'' (JObject kvs) \<longrightarrow>
            snd (snd (RoomList (respond r) c)) = ([], None)) \<and>
         (body = ''{"rooms":[{"room_id":1}],"rooms":[{"name":"b"}]}'' \<longrightarrow>
            snd (snd (RoomList (respond r) c)) =
              ([\<lparr>RoomId_room = 1, Name = ''b'', Topic = [], LastActive = 0, Created = 0,
                 Archived = False, Private = False, OwnerUserId = 0, XMPPJabberId = []\<rparr>],
               None))\<close>
proof -
  note res = RoomList_ok [OF assms, of c]
  have absent: "snd (snd (RoomList (respond r) c)) = ([], None)"
    if "json_parse body = Inr (JObject kvs)" and "\<not> hasField ''Rooms'' (JObject kvs)" for kvs
    using that res decode_RoomsResponse_absent [of kvs zero_RoomsResponse]
    by (simp add: Unmarshal_def zero_RoomsResponse_def nil_slice_def)
  have lobby: "snd (snd (RoomList (respond r) c)) =
              ([\<lparr>RoomId_room = 1, Name = ''Lobby'', Topic = [], LastActive = 0, Created = 0,
                 Archived = False, Private = False, OwnerUserId = 0, XMPPJabberId = []\<rparr>],
               None)"
    if b: \<open>body = ''{"rooms":[{"room_id":1,"name":"Lobby","is_archived":false}]}''\<close>
    using res unfolding b lobby_rooms by simp
  have repeated: "snd (snd (RoomList (respond r) c)) =
              ([\<lparr>RoomId_room = 1, Name = ''b'', Topic = [], LastActive = 0, Created = 0,
                 Archived = False, Private = False, OwnerUserId = 0, XMPPJabberId = []\<rparr>],
               None)"
    if b: \<open>body = ''{"rooms":[{"room_id":1}],"rooms":[{"name":"b"}]}''\<close>
    using res unfolding b repeated_rooms by simp
  show ?thesis
    using res absent lobby repeated by simp
qed

theorem C6_RoomList_success_witness:
  \<open>snd (snd (RoomList
      (respond \<lparr>StatusCode = 200,
         Body = Inr ''{"rooms":[{"room_id":1,"name":"Lobby","is_archived":false}]}''\<rparr>)
      (NewClient ''t''))) =
    ([\<lparr>RoomId_room = 1, Name = ''Lobby'', Topic = [], LastActive = 0, Created = 0,
       Archived = False, Private = False, OwnerUserId = 0, XMPPJabberId = []\<rparr>], None) \<and>
    snd (snd (RoomList
      (respond \<lparr>StatusCode = 200,
         Body = Inr ''{"rooms":[{"room_id":1}],"rooms":[{"name":"b"}]}''\<rparr>)
      (NewClient ''t''))) =
    ([\<lparr>RoomId_room = 1, Name = ''b'', Topic = [], LastActive = 0, Created = 0,
       Archived = False, Private = False, OwnerUserId = 0, XMPPJabberId = []\<rparr>], None)\<close>
proof -
  let ?body = \<open>''{"rooms":[{"room_id":1,"name":"Lobby","is_archived":false}]}''\<close>
  let ?r = "\<lparr>StatusCode = 200, Body = Inr ?body\<rparr>"
  let ?body2 = \<open>''{"rooms":[{"room_id":1}],"rooms":[{"name":"b"}]}''\<close>
  let ?r2 = "\<lparr>StatusCode = 200, Body = Inr ?body2\<rparr>"
  have a: "StatusCode ?r = 200" by simp
  have b: "Body ?r = Inr ?body" by simp
  have a2: "StatusCode ?r2 = 200" by simp
  have b2: "Body ?r2 = Inr ?body2" by simp
  have "?body = ?body \<longrightarrow>
          snd (snd (RoomList (respond ?r) (NewClient ''t''))) =
            ([\<lparr>RoomId_room = 1, Name = ''Lobby'', Topic = [], LastActive = 0, Created = 0,
               Archived = False, Private = False, OwnerUserId = 0, XMPPJabberId = []\<rparr>], None)"
    using C6_RoomList_success [OF a b, of "NewClient ''t''"]
    by (rule conjunct1 [OF conjunct2 [OF conjunct2]])
  moreover have "?body2 = ?body2 \<longrightarrow>
          snd (snd (RoomList (respond ?r2) (NewClient ''t''))) =
            ([\<lparr>RoomId_room = 1, Name = ''b'', Topic = [], LastActive = 0, Created = 0,
               Archived = False, Private = False, OwnerUserId = 0, XMPPJabberId = []\<rparr>], None)"
    using C6_RoomList_success [OF a2 b2, of "NewClient ''t''"]
    by (rule conjunct2 [OF conjunct2 [OF conjunct2 [OF conjunct2]]])
  ultimately show ?thesis by blast
qed

text \<open>
  The claim as stated, for every body that is valid JSON, fails: \<open>{"rooms":"none"}\<close> is
  valid JSON, and with status 200 \<open>RoomList\<close> returns the decoder's type error.
\<close>

theorem C6_valid_json_counterexample:
  \<open>json_parse ''{"rooms":"none"}'' = Inr (JObject [(''rooms'', JString ''none'')]) \<and>
    snd (snd (RoomList (respond \<lparr>StatusCode = 200, Body = Inr ''{"rooms":"none"}''\<rparr>)
                (NewClient ''t''))) =
      ([], Some (UnmarshalTypeError ''string'' ''[]hipchat.Room''))\<close>
  by code_simp

subsection \<open>A status that is not sent, without an error member\<close>

lemma decode_ErrorResponse_absent:
  assumes "\<not> hasField ''Error'' (JObject kvs)"
  shows "decode_ErrorResponse (JObject kvs) cur = (cur, None)"
proof -
  have "\<And>k x v. matchField [''Error''] k = None \<Longrightarrow> store_ErrorResponse k x v = (v, None)"
    by (simp add: store_ErrorResponse_def)
  with assms show ?thesis
    unfolding decode_ErrorResponse_def decode_struct_def hasField_def json.case
    by (rule store_skip [rotated -1, rotated -1])
qed

lemma decode_MessageResponse_shape:
  assumes "decode_MessageResponse tname j cur = (v, None)"
  shows "j = JNull \<or> (\<exists>kvs. j = JObject kvs)"
  using assms by (cases j) (simp_all add: decode_MessageResponse_def decode_struct_def)

lemma getError_absent:
  assumes "json_parse body = Inr j" and "j = JNull \<or> (\<exists>kvs. j = JObject kvs)"
    and "\<not> hasField ''Error'' j"
  shows "getError body = Some (HipchatErr zero_HipchatError)"
proof -
  have "decode_ErrorResponse j zero_ErrorResponse = (zero_ErrorResponse, None)"
  proof (cases "j = JNull")
    case True
    then show ?thesis by (simp add: decode_ErrorResponse_def decode_struct_def)
  next
    case False
    with assms(2) obtain kvs where "j = JObject kvs" by blast
    with assms(3) show ?thesis by (simp add: decode_ErrorResponse_absent)
  qed
  with assms(1) show ?thesis
    by (simp add: getError_def Unmarshal_def zero_ErrorResponse_def)
qed

text \<open>
  Claim C7, amended.  On the path without \<open>AuthTest\<close>, for every body that decodes
  into the status struct without error, with a \<open>Status\<close> other than \<open>sent\<close>, and that has
  no member whose key selects the field \<open>Error\<close>, the returned error is the zero
  \<open>HipchatError\<close>, whose message is the empty string.
\<close>

theorem C7_unrecognized_status:
  assumes "\<not> AuthTest req"
    and "RoomId req \<noteq> []" and "From req \<noteq> []" and "Message req \<noteq> []"
    and "Body r = Inr body"
    and "Unmarshal (decode_MessageResponse ''struct { Status string }'')
           zero_MessageResponse body = Inr msgResp"
    and "Status msgResp \<noteq> ''sent''"
    and "json_parse body = Inr j" and "\<not> hasField ''Error'' j"
  shows "snd (snd (PostMessage (respond r) c req)) = Some (HipchatErr zero_HipchatError) \<and>
         error_Error (HipchatErr zero_HipchatError) = []"
proof -
  from urlValues_ok [OF assms(2-4)] obtain payload
    where p: "urlValuesFromMessageRequest req = Inr payload" by blast
  have res: "snd (snd (PostMessage (respond r) c req)) = getError body"
    using PostMessage_body [OF assms(1) p assms(5), of c] assms(6,7)
    by (simp add: ResponseStatusSent_def)
  from assms(6,8) have "decode_MessageResponse ''struct { Status string }'' j
      zero_MessageResponse = (msgResp, None)"
    by (auto simp: Unmarshal_def split: prod.splits option.splits)
  then have "j = JNull \<or> (\<exists>kvs. j = JObject kvs)"
    by (rule decode_MessageResponse_shape)
  then have "getError body = Some (HipchatErr zero_HipchatError)"
    using assms(8,9) by (simp add: getError_absent)
  with res show ?thesis
    by (simp add: HipchatError_Error_def zero_HipchatError_def)
qed

lemma unknown_status:
  \<open>Unmarshal (decode_MessageResponse ''struct { Status string }'') zero_MessageResponse
     ''{"status":"queued"}'' = Inr \<lparr>Status = ''queued''\<rparr>\<close>
  by code_simp

lemma unknown_status_parse:
  \<open>json_parse ''{"status":"queued"}'' = Inr (JObject [(''status'', JString ''queued'')])\<close>
  by code_simp

lemma unknown_status_no_error:
  \<open>\<not> hasField ''Error'' (JObject [(''status'', JString ''queued'')])\<close>
  by code_simp

theorem C7_unrecognized_status_witness:
  \<open>snd (snd (PostMessage
      (respond \<lparr>StatusCode = 200, Body = Inr ''{"status":"queued"}''\<rparr>)
      (NewClient ''t'')
      \<lparr>RoomId = ''r'', From = ''f'', Message = ''m'', MessageFormat = [], Notify = False,
        Color = [], AuthTest = False\<rparr>)) = Some (HipchatErr zero_HipchatError) \<and>
    error_Error (HipchatErr zero_HipchatError) = []\<close>
proof -
  let ?body = \<open>''{"status":"queued"}''\<close>
  let ?r = "\<lparr>StatusCode = 200, Body = Inr ?body\<rparr>"
  let ?req = "\<lparr>RoomId = ''r'', From = ''f'', Message = ''m'', MessageFormat = [],
               Notify = False, Color = [], AuthTest = False\<rparr>"
  have a: "\<not> AuthTest ?req" "RoomId ?req \<noteq> []" "From ?req \<noteq> []" "Message ?req \<noteq> []"
    by simp_all
  have b: "Body ?r = Inr ?body" by simp
  have s: "Status \<lparr>Status = ''queued''\<rparr> \<noteq> ''sent''" by simp
  show ?thesis
    by (rule C7_unrecognized_status
          [OF a b unknown_status s unknown_status_parse unknown_status_no_error])
qed

text \<open>
  The claim as stated, for every body that is valid JSON, fails: \<open>{"status":5}\<close> is
  valid JSON, its status is not \<open>sent\<close> and it has no error member, and \<open>PostMessage\<close>
  returns the type error of the first decoding, whose message is not empty.
\<close>

theorem C7_valid_json_counterexample:
  \<open>json_parse ''{"status":5}'' = Inr (JObject [(''status'', JNumber ''5'')]) \<and>
    \<not> hasField ''Error'' (JObject [(''status'', JNumber ''5'')]) \<and>
    snd (snd (PostMessage
      (respond \<lparr>StatusCode = 200, Body = Inr ''{"status":5}''\<rparr>)
      (NewClient ''t'')
      \<lparr>RoomId = ''r'', From = ''f'', Message = ''m'', MessageFormat = [], Notify = False,
        Color = [], AuthTest = False\<rparr>)) = Some (UnmarshalTypeError ''number'' ''string'') \<and>
    error_Error (UnmarshalTypeError ''number'' ''string'') =
      ''json: cannot unmarshal number into Go value of type string''\<close>
  by code_simp

subsection \<open>The two revisions of RoomList\<close>

text \<open>
  Claim C10.  For a client whose \<open>BaseURL\<close> is the default endpoint and the client of
  the earlier revision with the same token, under every transport the two \<open>RoomList\<close>
  functions issue the same request and return the same rooms, and their errors are both
  nil or have the same message.
\<close>

theorem C10_RoomList_revisions_agree:
  assumes "BaseURL c = ''https://api.hipchat.com/v1''"
  shows "fst (snd (RoomList http c)) = fst (RoomList_old http \<lparr>AuthToken_old = AuthToken c\<rparr>) \<and>
         fst (snd (snd (RoomList http c))) =
           fst (snd (RoomList_old http \<lparr>AuthToken_old = AuthToken c\<rparr>)) \<and>
         map_option error_Error (snd (snd (snd (RoomList http c)))) =
           map_option error_Error (snd (snd (RoomList_old http \<lparr>AuthToken_old = AuthToken c\<rparr>)))"
proof -
  have f: "fillBaseURL c = c"
    by (simp add: fillBaseURL_def assms)
  show ?thesis
    unfolding RoomList_def RoomList_old_def Let_def f
    by (simp add: assms baseURL_def StatusOK_def getError_def HipchatError_Error_def
        split: sum.split)
qed

lemma bad_token_old:
  \<open>snd (snd (RoomList_old
      (respond \<lparr>StatusCode = 401,
         Body = Inr ''{"error":{"code":401,"type":"Unauthorized","message":"bad token"}}''\<rparr>)
      \<lparr>AuthToken_old = ''t''\<rparr>)) = Some (ErrorString ''bad token'')\<close>
  by code_simp

theorem C10_RoomList_revisions_agree_witness:
  \<open>BaseURL (NewClient ''t'') = ''https://api.hipchat.com/v1'' \<and>
    map_option error_Error (snd (snd (RoomList_old
      (respond \<lparr>StatusCode = 401,
         Body = Inr ''{"error":{"code":401,"type":"Unauthorized","message":"bad token"}}''\<rparr>)
      \<lparr>AuthToken_old = ''t''\<rparr>))) = Some ''bad token'' \<and>
    map_option error_Error (snd (snd (snd (RoomList
      (respond \<lparr>StatusCode = 401,
         Body = Inr ''{"error":{"code":401,"type":"Unauthorized","message":"bad token"}}''\<rparr>)
      (NewClient ''t''))))) = Some ''bad token''\<close>
proof -
  let ?http = \<open>respond \<lparr>StatusCode = 401,
         Body = Inr ''{"error":{"code":401,"type":"Unauthorized","message":"bad token"}}''\<rparr>\<close>
  have a: "BaseURL (NewClient ''t'') = ''https://api.hipchat.com/v1''"
    by (simp add: NewClient_def defaultBaseURL_def)
  have t: "AuthToken (NewClient ''t'') = ''t''"
    by (simp add: NewClient_def)
  have "map_option error_Error (snd (snd (snd (RoomList ?http (NewClient ''t''))))) =
        map_option error_Error (snd (snd (RoomList_old ?http \<lparr>AuthToken_old = ''t''\<rparr>)))"
    using C10_RoomList_revisions_agree [OF a, of ?http] unfolding t by blast
  with a show ?thesis
    by (simp add: bad_token_old)
qed

end
